theory Spec2Isabelle
  imports Main
begin

section \<open>Values, documents, errors and responses\<close>

text \<open>
  The two services (\<^verbatim>\<open>events/app.py\<close>, \<^verbatim>\<open>users/app.py\<close>) move Python values between
  HTTP requests and MongoDB collections. A value is one of the shapes below; \<open>JOid\<close> is a
  BSON ObjectId, held as its 24 hexadecimal characters. A document is a Python dict: an
  association list read with \<open>map_of\<close>, so that the order of the fields is kept.
\<close>

datatype jv =
    JNull
  | JBool bool
  | JInt int
  | JStr string
  | JOid string
  | JList "jv list"
  | JDict "(string \<times> jv) list"

type_synonym document = "(string \<times> jv) list"

text \<open>The exceptions that can leave a statement of the two modules.\<close>

datatype error =
    DBNotConnectedError
  | BadRequestKeyError
  | KeyError
  | InvalidId
  | OperationFailure
  | AttributeError

text \<open>
  What a route returns to Flask: a text and a status (\<^verbatim>\<open>return 'msg', 500\<close>), or a
  JSON body (a dict, or \<^verbatim>\<open>jsonify(...)\<close>), whose status is 200 unless one is given.
\<close>

datatype body = Text string | Json jv

record response =
  status :: nat
  body :: body

definition text_response :: "string \<Rightarrow> nat \<Rightarrow> response" where
  "text_response msg code = \<lparr>status = code, body = Text msg\<rparr>"

definition json_response :: "jv \<Rightarrow> nat \<Rightarrow> response" where
  "json_response j code = \<lparr>status = code, body = Json j\<rparr>"

text \<open>Python's truth value of an object, as \<^verbatim>\<open>not x\<close> tests it.\<close>

fun truthy :: "jv \<Rightarrow> bool" where
  "truthy JNull = False"
| "truthy (JBool b) = b"
| "truthy (JInt i) = (i \<noteq> 0)"
| "truthy (JStr s) = (s \<noteq> [])"
| "truthy (JOid h) = True"
| "truthy (JList xs) = (xs \<noteq> [])"
| "truthy (JDict kvs) = (kvs \<noteq> [])"

text \<open>
  \<^verbatim>\<open>json.loads(json_util.dumps(x))\<close>: every value comes back as it was, except the
  ObjectId, which \<^verbatim>\<open>json_util\<close> writes as \<^verbatim>\<open>{"$oid": "<hex>"}\<close>.
\<close>

fun json_roundtrip :: "jv \<Rightarrow> jv" where
  "json_roundtrip (JOid h) = JDict [(''$oid'', JStr h)]"
| "json_roundtrip (JList xs) = JList (map json_roundtrip xs)"
| "json_roundtrip (JDict kvs) = JDict (map (\<lambda>kv. (fst kv, json_roundtrip (snd kv))) kvs)"
| "json_roundtrip v = v"

section \<open>The store: a MongoDB collection behind its pymongo interface\<close>

text \<open>
  The collection is the external store. The model keeps its documents, its indexes, its
  native text matching (\<open>text_match\<close>: tokenising, stemming and stop words are the
  store's) and a log of the calls made on it, so that "no store call" and "only reads"
  are statements about \<open>calls\<close>.
\<close>

datatype query =
    Everything
  | FieldEq string jv
  | TextSearch string

datatype call =
    Find query
  | CountDocuments query
  | InsertOne document
  | CreateIndex "(string \<times> string) list"

record collection =
  docs :: "document list"
  indexes :: "(string \<times> string) list list"
  text_match :: "string \<Rightarrow> document \<Rightarrow> bool"
  calls :: "call list"

fun matches :: "collection \<Rightarrow> query \<Rightarrow> document \<Rightarrow> bool" where
  "matches c Everything d = True"
| "matches c (FieldEq k v) d = (map_of d k = Some v)"
| "matches c (TextSearch q) d = text_match c q d"

definition has_text_index :: "collection \<Rightarrow> bool" where
  "has_text_index c = list_ex (list_ex (\<lambda>kt. snd kt = ''text'')) (indexes c)"

fun needs_text_index :: "query \<Rightarrow> bool" where
  "needs_text_index (TextSearch q) = True"
| "needs_text_index q = False"

text \<open>
  \<^verbatim>\<open>coll.find(q)\<close>. A \<^verbatim>\<open>$text\<close> query on a collection without a text index is
  refused by the store (OperationFailure).
\<close>

definition coll_find :: "query \<Rightarrow> collection \<Rightarrow> (error + document list) \<times> collection" where
  "coll_find q c =
     (if needs_text_index q \<and> \<not> has_text_index c then Inl OperationFailure
      else Inr (filter (matches c q) (docs c)),
      c\<lparr>calls := calls c @ [Find q]\<rparr>)"

text \<open>\<^verbatim>\<open>coll.count_documents(q)\<close>.\<close>

definition count_documents :: "query \<Rightarrow> collection \<Rightarrow> nat \<times> collection" where
  "count_documents q c =
     (length (filter (matches c q) (docs c)), c\<lparr>calls := calls c @ [CountDocuments q]\<rparr>)"

text \<open>
  \<^verbatim>\<open>coll.insert_one(d)\<close>: a document without \<^verbatim>\<open>_id\<close> gets a new ObjectId (\<open>fresh\<close>,
  made by the driver from the clock, the process and a counter: an input of the model).
\<close>

definition insert_one :: "string \<Rightarrow> document \<Rightarrow> collection \<Rightarrow> collection" where
  "insert_one fresh d c =
     c\<lparr>docs := docs c @ [if map_of d ''_id'' = None then d @ [(''_id'', JOid fresh)] else d],
       calls := calls c @ [InsertOne d]\<rparr>"

text \<open>\<^verbatim>\<open>coll.create_index(keys)\<close>: an index that exists already is left as it is.\<close>

definition create_index :: "(string \<times> string) list \<Rightarrow> collection \<Rightarrow> collection" where
  "create_index keys c =
     c\<lparr>indexes := (if keys \<in> set (indexes c) then indexes c else indexes c @ [keys]),
       calls := calls c @ [CreateIndex keys]\<rparr>"

text \<open>
  \<^verbatim>\<open>ObjectId(s)\<close> of the bson library, for a string: 24 hexadecimal characters, or
  InvalidId. The ObjectId is the twelve bytes that the characters spell, so upper and
  lower case give the same one: \<open>JOid\<close> holds the lower-case spelling.
\<close>

definition is_hex :: "char \<Rightarrow> bool" where
  "is_hex ch = (ch \<in> set ''0123456789abcdefABCDEF'')"

definition hex_lower :: "char \<Rightarrow> char" where
  "hex_lower ch = (case map_of (zip ''ABCDEF'' ''abcdef'') ch of None \<Rightarrow> ch | Some l \<Rightarrow> l)"

definition ObjectId :: "string \<Rightarrow> error + jv" where
  "ObjectId s =
     (if length s = 24 \<and> list_all is_hex s then Inr (JOid (map hex_lower s)) else Inl InvalidId)"

section \<open>The events service\<close>

subsection \<open>The collection handle\<close>

text \<open>
  \<^verbatim>\<open>app.config['COLLECTION'] = connect_to_mongodb()\<close>: the pymongo collection when
  \<^verbatim>\<open>MONGODB_URI\<close> is set, and otherwise a \<^verbatim>\<open>Thrower\<close>, whose \<^verbatim>\<open>__getattribute__\<close>
  raises DBNotConnectedError for every attribute. Python evaluates \<^verbatim>\<open>h.find\<close> before the
  arguments of \<^verbatim>\<open>h.find(...)\<close>, so the attribute lookup is a step of its own.
\<close>

datatype handle = Thrower | Connected

definition connect_to_mongodb :: "string option \<Rightarrow> handle" where
  "connect_to_mongodb mongodb_uri = (case mongodb_uri of None \<Rightarrow> Thrower | Some uri \<Rightarrow> Connected)"

definition getattribute :: "handle \<Rightarrow> error + unit" where
  "getattribute h = (case h of Thrower \<Rightarrow> Inl DBNotConnectedError | Connected \<Rightarrow> Inr ())"

text \<open>\<^verbatim>\<open>request.form[k]\<close> and \<^verbatim>\<open>request.args[k]\<close>: a missing key raises BadRequestKeyError.\<close>

definition getitem :: "(string \<rightharpoonup> string) \<Rightarrow> string \<Rightarrow> error + string" where
  "getitem params k = (case params k of None \<Rightarrow> Inl BadRequestKeyError | Some v \<Rightarrow> Inr v)"

subsection \<open>The Event entity\<close>

text \<open>
  Modelled from the spec: the class \<^verbatim>\<open>Event\<close> of the module \<^verbatim>\<open>eventclass\<close>, which
  \<^verbatim>\<open>events/app.py\<close> imports and which is not among the sources. The spec declares the
  fields name, description, author, event_time and created_at, and says that a document
  "is round-tripped through the entity's field set", which "normalizes field
  order/presence and implicitly drops any unexpected/legacy fields not declared in the
  data model". So \<open>Event\<close> keeps the declared fields of its keyword arguments (None for
  one that is absent), and \<open>Event_dict\<close> (the property \<^verbatim>\<open>.dict\<close>) lists them in the
  declared order.
\<close>

record event =
  ev_name :: jv
  ev_description :: jv
  ev_author :: jv
  ev_event_time :: jv
  ev_created_at :: jv

definition kwarg :: "document \<Rightarrow> string \<Rightarrow> jv" where
  "kwarg kwargs k = (case map_of kwargs k of None \<Rightarrow> JNull | Some v \<Rightarrow> v)"

definition Event :: "document \<Rightarrow> event" where
  "Event kwargs =
     \<lparr>ev_name = kwarg kwargs ''name'',
      ev_description = kwarg kwargs ''description'',
      ev_author = kwarg kwargs ''author'',
      ev_event_time = kwarg kwargs ''event_time'',
      ev_created_at = kwarg kwargs ''created_at''\<rparr>"

definition Event_dict :: "event \<Rightarrow> document" where
  "Event_dict e =
     [(''name'', ev_name e),
      (''description'', ev_description e),
      (''author'', ev_author e),
      (''event_time'', ev_event_time e),
      (''created_at'', ev_created_at e)]"

definition event_fields :: "string list" where
  "event_fields = [''name'', ''description'', ''author'', ''event_time'', ''created_at'']"

subsection \<open>The clock\<close>

text \<open>
  \<^verbatim>\<open>datetime.datetime.utcnow()\<close> is read from the server's clock; its value is an input
  of the model. \<^verbatim>\<open>isoformat(sep=' ', timespec='seconds')\<close> of a datetime without a time
  zone prints \<^verbatim>\<open>%04d-%02d-%02d %02d:%02d:%02d\<close>.
\<close>

record datetime =
  year :: nat
  month :: nat
  day :: nat
  hour :: nat
  minute :: nat
  second :: nat
  microsecond :: nat

definition valid_datetime :: "datetime \<Rightarrow> bool" where
  "valid_datetime t =
     (1 \<le> year t \<and> year t \<le> 9999 \<and> 1 \<le> month t \<and> month t \<le> 12 \<and>
      1 \<le> day t \<and> day t \<le> 31 \<and> hour t < 24 \<and> minute t < 60 \<and> second t < 60 \<and>
      microsecond t < 1000000)"

definition digit_char :: "nat \<Rightarrow> char" where
  "digit_char n = ''0123456789'' ! n"

fun decimal :: "nat \<Rightarrow> string" where
  "decimal n = (if n < 10 then [digit_char n] else decimal (n div 10) @ [digit_char (n mod 10)])"

declare decimal.simps [simp del]

definition zero_pad :: "nat \<Rightarrow> nat \<Rightarrow> string" where
  "zero_pad w n = replicate (w - length (decimal n)) (CHR ''0'') @ decimal n"

definition isoformat_seconds :: "datetime \<Rightarrow> string" where
  "isoformat_seconds t =
     zero_pad 4 (year t) @ ''-'' @ zero_pad 2 (month t) @ ''-'' @ zero_pad 2 (day t) @ '' '' @
     zero_pad 2 (hour t) @ '':'' @ zero_pad 2 (minute t) @ '':'' @ zero_pad 2 (second t)"

subsection \<open>Helpers of the routes\<close>

text \<open>\<^verbatim>\<open>{**info, 'created_at': time}\<close>: the key is replaced where it stands, or added last.\<close>

fun dict_set :: "document \<Rightarrow> string \<Rightarrow> jv \<Rightarrow> document" where
  "dict_set [] k v = [(k, v)]"
| "dict_set (p # ps) k v = (if fst p = k then (k, v) # ps else p # dict_set ps k v)"

definition build_event_info :: "document \<Rightarrow> string \<Rightarrow> document" where
  "build_event_info info time = dict_set info ''created_at'' (JStr time)"

definition build_events_dict :: "document list \<Rightarrow> jv" where
  "build_events_dict events_cursor =
     (let events_list = map (\<lambda>ev. Event_dict (Event ev)) events_cursor;
          num_events = length events_list
      in JDict [(''events'', JList (map JDict events_list)), (''num_events'', JInt (int num_events))])"

definition text_search_event_name ::
    "string \<Rightarrow> handle \<Rightarrow> collection \<Rightarrow> (error + document list) \<times> collection" where
  "text_search_event_name name coll c =
     (case getattribute coll of
        Inl e \<Rightarrow> (Inl e, c)
      | Inr u \<Rightarrow> coll_find (TextSearch name) c)"

text \<open>The \<^verbatim>\<open>except\<close> clauses of the routes; any other exception leaves the route.\<close>

definition db_undefined :: response where
  "db_undefined = text_response ''Events database was undefined.'' 500"

fun except_DBNotConnectedError ::
    "(error + response) \<times> collection \<Rightarrow> (error + response) \<times> collection" where
  "except_DBNotConnectedError (Inl DBNotConnectedError, c) = (Inr db_undefined, c)"
| "except_DBNotConnectedError r = r"

fun except_BadRequestKeyError ::
    "string \<Rightarrow> (error + response) \<times> collection \<Rightarrow> (error + response) \<times> collection" where
  "except_BadRequestKeyError msg (Inl BadRequestKeyError, c) = (Inr (text_response msg 400), c)"
| "except_BadRequestKeyError msg r = r"

subsection \<open>The routes\<close>

text \<open>GET /v1/\<close>

definition get_all_events_try :: "handle \<Rightarrow> collection \<Rightarrow> (error + response) \<times> collection" where
  "get_all_events_try h c =
     (case getattribute h of
        Inl e \<Rightarrow> (Inl e, c)
      | Inr u \<Rightarrow>
          (case coll_find Everything c of
             (Inl e, c') \<Rightarrow> (Inl e, c')
           | (Inr events, c') \<Rightarrow>
               (Inr (json_response (json_roundtrip (build_events_dict events)) 200), c')))"

definition get_all_events :: "handle \<Rightarrow> collection \<Rightarrow> (error + response) \<times> collection" where
  "get_all_events h c = except_DBNotConnectedError (get_all_events_try h c)"

text \<open>GET /v1/search\<close>

definition search_event_try ::
    "(string \<rightharpoonup> string) \<Rightarrow> handle \<Rightarrow> collection \<Rightarrow> (error + response) \<times> collection" where
  "search_event_try args h c =
     (case getitem args ''name'' of
        Inl e \<Rightarrow> (Inl e, c)
      | Inr event_name \<Rightarrow>
          (case getattribute h of
             Inl e \<Rightarrow> (Inl e, c)
           | Inr u \<Rightarrow>
               (case text_search_event_name event_name h (create_index [(''name'', ''text'')] c) of
                  (Inl e, c') \<Rightarrow> (Inl e, c')
                | (Inr events, c') \<Rightarrow>
                    (Inr (json_response (json_roundtrip (build_events_dict events)) 200), c'))))"

definition search_event ::
    "(string \<rightharpoonup> string) \<Rightarrow> handle \<Rightarrow> collection \<Rightarrow> (error + response) \<times> collection" where
  "search_event args h c =
     except_DBNotConnectedError
       (except_BadRequestKeyError ''Event name was entered incorrectly.'' (search_event_try args h c))"

text \<open>POST /v1/add\<close>

definition add_event_try ::
    "(string \<rightharpoonup> string) \<Rightarrow> datetime \<Rightarrow> string \<Rightarrow> handle \<Rightarrow> collection
      \<Rightarrow> (error + response) \<times> collection" where
  "add_event_try form utcnow fresh h c =
     (case getitem form ''event_name'' of
        Inl e \<Rightarrow> (Inl e, c)
      | Inr event_name \<Rightarrow>
     (case getitem form ''description'' of
        Inl e \<Rightarrow> (Inl e, c)
      | Inr description \<Rightarrow>
     (case getitem form ''author_id'' of
        Inl e \<Rightarrow> (Inl e, c)
      | Inr author_id \<Rightarrow>
     (case getitem form ''event_time'' of
        Inl e \<Rightarrow> (Inl e, c)
      | Inr event_time \<Rightarrow>
        (let info = [(''name'', JStr event_name),
                     (''description'', JStr description),
                     (''author'', JStr author_id),
                     (''event_time'', JStr event_time)];
             current_time = isoformat_seconds utcnow;
             info = build_event_info info current_time;
             event = Event info
         in (case getattribute h of
               Inl e \<Rightarrow> (Inl e, c)
             | Inr u \<Rightarrow> (Inr (text_response ''Event added.'' 201),
                         insert_one fresh (Event_dict event) c)))))))"

definition add_event ::
    "(string \<rightharpoonup> string) \<Rightarrow> datetime \<Rightarrow> string \<Rightarrow> handle \<Rightarrow> collection
      \<Rightarrow> (error + response) \<times> collection" where
  "add_event form utcnow fresh h c =
     except_DBNotConnectedError
       (except_BadRequestKeyError ''Event info was entered incorrectly.''
          (add_event_try form utcnow fresh h c))"

text \<open>PUT /v1/<event_id>\<close>

definition get_one_event_try ::
    "string \<Rightarrow> handle \<Rightarrow> collection \<Rightarrow> (error + response) \<times> collection" where
  "get_one_event_try event_id h c =
     (case getattribute h of
        Inl e \<Rightarrow> (Inl e, c)
      | Inr u \<Rightarrow>
          (case ObjectId event_id of
             Inl e \<Rightarrow> (Inl e, c)
           | Inr oid \<Rightarrow>
               (case coll_find (FieldEq ''_id'' oid) c of
                  (Inl e, c') \<Rightarrow> (Inl e, c')
                | (Inr cursor, c') \<Rightarrow>
                    (let events = map (\<lambda>ev. Event_dict (Event ev)) cursor
                     in (Inr (json_response (json_roundtrip (build_events_dict events)) 200), c')))))"

definition get_one_event ::
    "string \<Rightarrow> handle \<Rightarrow> collection \<Rightarrow> (error + response) \<times> collection" where
  "get_one_event event_id h c = except_DBNotConnectedError (get_one_event_try event_id h c)"

section \<open>The users service\<close>

text \<open>
  \<^verbatim>\<open>DB = pymongo.MongoClient(PYMONGO_URI).test\<close> is built when the module is loaded,
  whatever the environment holds: the users service has no stand-in for a missing
  configuration, and its routes catch no exception. \<^verbatim>\<open>DB.users\<close> is the collection.
\<close>

text \<open>The loop \<^verbatim>\<open>for user in cursor\<close>; \<^verbatim>\<open>user["is_organizer"]\<close> raises KeyError on a
  document without the field.\<close>

fun all_organizers :: "document list \<Rightarrow> error + bool" where
  "all_organizers [] = Inr True"
| "all_organizers (user # cursor) =
     (case map_of user ''is_organizer'' of
        None \<Rightarrow> Inl KeyError
      | Some flag \<Rightarrow> if \<not> truthy flag then Inr False else all_organizers cursor)"

text \<open>
  \<^verbatim>\<open>count_documents(...) is 0\<close> compares with the integer 0, which CPython keeps as one
  object: the test is \<open>n = 0\<close>.
\<close>

definition is_authorized_to_edit :: "string \<Rightarrow> collection \<Rightarrow> (error + bool) \<times> collection" where
  "is_authorized_to_edit username users =
     (case count_documents (FieldEq ''username'' (JStr username)) users of
        (n, users1) \<Rightarrow>
          if n = 0 then (Inr False, users1)
          else (case coll_find (FieldEq ''username'' (JStr username)) users1 of
                  (Inl e, users2) \<Rightarrow> (Inl e, users2)
                | (Inr cursor, users2) \<Rightarrow> (all_organizers cursor, users2)))"

text \<open>POST /v1/authorization\<close>

definition get_authorization ::
    "(string \<rightharpoonup> string) \<Rightarrow> collection \<Rightarrow> (error + response) \<times> collection" where
  "get_authorization form users =
     (case form ''user_id'' of
        None \<Rightarrow>
          (Inr (json_response
                  (JDict [(''error'', JStr ''You must supply a 'user_id' POST parameter!'')]) 200),
           users)
      | Some user \<Rightarrow>
          (case is_authorized_to_edit user users of
             (Inl e, users') \<Rightarrow> (Inl e, users')
           | (Inr authorized, users') \<Rightarrow>
               (Inr (json_response (JDict [(''edit_access'', JBool authorized)]) 200), users')))"



section \<open>Notions used to state the properties\<close>

text \<open>The form fields that add-event reads.\<close>

definition required_fields :: "string list" where
  "required_fields = [''event_name'', ''description'', ''author_id'', ''event_time'']"

text \<open>The calls that only read the store.\<close>

fun is_read :: "call \<Rightarrow> bool" where
  "is_read (Find q) = True"
| "is_read (CountDocuments q) = True"
| "is_read (InsertOne d) = False"
| "is_read (CreateIndex keys) = False"

text \<open>
  What the wire shows of a stored document: its declared fields, in the declared order,
  each value as JSON gives it back.
\<close>

definition declared_part :: "document \<Rightarrow> jv" where
  "declared_part d = JDict (map (\<lambda>k. (k, json_roundtrip (kwarg d k))) event_fields)"

text \<open>
  A text of the shape \<^verbatim>\<open>YYYY-MM-DD HH:MM:SS\<close>: in the pattern, \<open>d\<close> stands for a
  decimal digit and every other character for itself.
\<close>

definition is_digit :: "char \<Rightarrow> bool" where
  "is_digit ch = (ch \<in> set ''0123456789'')"

definition fits :: "char \<Rightarrow> char \<Rightarrow> bool" where
  "fits p ch = (if p = CHR ''d'' then is_digit ch else ch = p)"

definition timestamp_shape :: "string \<Rightarrow> bool" where
  "timestamp_shape s = list_all2 fits ''dddd-dd-dd dd:dd:dd'' s"

text \<open>A store with nothing in it, and one that matches a text query by equality of the name.\<close>

definition name_is :: "string \<Rightarrow> document \<Rightarrow> bool" where
  "name_is q d = (map_of d ''name'' = Some (JStr q))"

definition empty_collection :: collection where
  "empty_collection = \<lparr>docs = [], indexes = [], text_match = name_is, calls = []\<rparr>"

text \<open>
  Sample inputs: the add-event request of the spec's scenario, a reading of the clock, an
  ObjectId, and a users collection in which one username has two records.
\<close>

definition launch_form :: "string \<rightharpoonup> string" where
  "launch_form =
     map_of [(''event_name'', ''Launch''), (''description'', ''kickoff''),
             (''author_id'', ''u1''), (''event_time'', ''2024-01-01T10:00:00'')]"

definition launch_clock :: datetime where
  "launch_clock =
     \<lparr>year = 2024, month = 1, day = 2, hour = 3, minute = 4, second = 5, microsecond = 678\<rparr>"

definition launch_id :: string where
  "launch_id = ''65a1b2c3d4e5f60718293a4b''"

definition sample_users :: collection where
  "sample_users =
     \<lparr>docs =
        [[(''username'', JStr ''cmei4444''), (''name'', JStr ''Carolyn Mei''),
          (''is_organizer'', JBool True)],
         [(''username'', JStr ''guest''), (''name'', JStr ''A Guest''),
          (''is_organizer'', JBool True)],
         [(''username'', JStr ''guest''), (''name'', JStr ''The Same Guest''),
          (''is_organizer'', JBool False)]],
      indexes = [], text_match = name_is, calls = []\<rparr>"

text \<open>
  An events collection holding the event of the scenario, stored with a field that the
  data model does not declare, and the answer of list-all on it.
\<close>

definition sample_events :: collection where
  "sample_events =
     \<lparr>docs =
        [[(''_id'', JOid launch_id), (''name'', JStr ''Launch''),
          (''description'', JStr ''kickoff''), (''author'', JStr ''u1''),
          (''event_time'', JStr ''2024-01-01T10:00:00''),
          (''created_at'', JStr ''2024-01-02 03:04:05''), (''legacy'', JInt 7)]],
      indexes = [], text_match = name_is, calls = []\<rparr>"

definition sample_answer :: response where
  "sample_answer =
     \<lparr>status = 200,
      body = Json (JDict
        [(''events'',
          JList [JDict [(''name'', JStr ''Launch''), (''description'', JStr ''kickoff''),
                        (''author'', JStr ''u1''),
                        (''event_time'', JStr ''2024-01-01T10:00:00''),
                        (''created_at'', JStr ''2024-01-02 03:04:05'')]]),
         (''num_events'', JInt 1)])\<rparr>"

section \<open>Missing form fields on add-event\<close>

lemma add_event_try_missing:
  assumes "k \<in> set required_fields" and "form k = None"
  shows "add_event_try form utcnow fresh h c = (Inl BadRequestKeyError, c)"
  using assms
  by (auto simp: add_event_try_def getitem_def required_fields_def split: option.splits)

text \<open>
  Claim C5. When one of the required form fields (event_name, description, author_id,
  event_time) is absent, add-event answers 400 with its message, whatever the handle is,
  and the store is returned as it was: its documents are the same and its call log has
  gained nothing, so no document was inserted.
\<close>

theorem add_event_missing_field_gives_400:
  assumes "k \<in> set required_fields" and "form k = None"
  shows "add_event form utcnow fresh h c =
           (Inr (text_response ''Event info was entered incorrectly.'' 400), c)"
  using assms by (simp add: add_event_def add_event_try_missing)

theorem add_event_missing_field_gives_400_witness:
  "add_event (launch_form(''author_id'' := None)) launch_clock launch_id Connected empty_collection =
     (Inr (text_response ''Event info was entered incorrectly.'' 400), empty_collection)"
  using add_event_missing_field_gives_400
          [of "''author_id''" "launch_form(''author_id'' := None)" launch_clock launch_id
              Connected empty_collection]
  by (simp add: required_fields_def)

section \<open>The unconfigured handle\<close>

text \<open>
  Claim C1, as the code has it. With \<^verbatim>\<open>MONGODB_URI\<close> missing at startup the handle is the
  Thrower. Then list-all and get-one-by-id answer 500 with the text
  "Events database was undefined." on every request; search does so when the \<open>name\<close>
  parameter is present, and add when the four required form fields are present. In each
  case the store is returned as it was (no call is logged). The request parameters are
  read before the handle is touched, so a request that lacks one is answered 400 (see the
  counterexample and claim C5). The users service has no such handle and no 500 answer of
  its own, so it is not part of the statement.
\<close>

theorem unconfigured_handle_gives_500:
  "get_all_events (connect_to_mongodb None) c = (Inr db_undefined, c)
 \<and> get_one_event event_id (connect_to_mongodb None) c = (Inr db_undefined, c)
 \<and> (args ''name'' \<noteq> None \<longrightarrow>
      search_event args (connect_to_mongodb None) c = (Inr db_undefined, c))
 \<and> ((\<forall>k\<in>set required_fields. form k \<noteq> None) \<longrightarrow>
      add_event form utcnow fresh (connect_to_mongodb None) c = (Inr db_undefined, c))
 \<and> db_undefined = \<lparr>status = 500, body = Text ''Events database was undefined.''\<rparr>"
  by (auto simp: get_all_events_def get_all_events_try_def get_one_event_def
      get_one_event_try_def search_event_def search_event_try_def add_event_def
      add_event_try_def Let_def getattribute_def connect_to_mongodb_def getitem_def
      required_fields_def db_undefined_def text_response_def)

theorem unconfigured_handle_gives_500_witness:
  "get_all_events (connect_to_mongodb None) empty_collection = (Inr db_undefined, empty_collection)
 \<and> get_one_event launch_id (connect_to_mongodb None) empty_collection =
      (Inr db_undefined, empty_collection)
 \<and> search_event (map_of [(''name'', ''party'')]) (connect_to_mongodb None) empty_collection =
      (Inr db_undefined, empty_collection)
 \<and> add_event launch_form launch_clock launch_id (connect_to_mongodb None) empty_collection =
      (Inr db_undefined, empty_collection)"
  using unconfigured_handle_gives_500
          [where c = empty_collection and event_id = launch_id
             and args = "map_of [(''name'', ''party'')]" and form = launch_form
             and utcnow = launch_clock and fresh = launch_id]
  by (simp add: required_fields_def launch_form_def)

text \<open>
  The claim as written fails for search: without the \<open>name\<close> parameter the route answers
  400, not 500, although the handle is unconfigured.
\<close>

theorem unconfigured_search_without_name_gives_400:
  "search_event Map.empty (connect_to_mongodb None) empty_collection =
     (Inr (text_response ''Event name was entered incorrectly.'' 400), empty_collection)"
  by (simp add: search_event_def search_event_try_def getitem_def)

section \<open>An event id that is not an ObjectId\<close>




section \<open>The authorization decision\<close>

lemma find_FieldEq:
  "coll_find (FieldEq k v) c =
     (Inr (filter (matches c (FieldEq k v)) (docs c)), c\<lparr>calls := calls c @ [Find (FieldEq k v)]\<rparr>)"
  by (simp add: coll_find_def)

lemma matches_FieldEq: "matches c (FieldEq k v) = (\<lambda>d. map_of d k = Some v)"
  by (rule ext) simp

lemma all_organizers_bool:
  assumes "\<forall>d\<in>set ms. \<exists>b. map_of d ''is_organizer'' = Some (JBool b)"
  shows "all_organizers ms = Inr (\<forall>d\<in>set ms. map_of d ''is_organizer'' = Some (JBool True))"
  using assms by (induction ms) auto

text \<open>
  Claim C2. Let \<open>ms\<close> be the documents of the users collection whose \<open>username\<close> is the
  given one. When there is none, the decision is false. When every one of them carries a
  boolean \<open>is_organizer\<close> (the shape the docstring gives for a user document), the
  decision is: there is a match, and \<open>is_organizer\<close> is true in every match.
\<close>

theorem is_authorized_to_edit_and_of_flags:
  fixes username :: string and users :: collection
  defines "ms \<equiv> filter (\<lambda>d. map_of d ''username'' = Some (JStr username)) (docs users)"
  shows "(ms = [] \<longrightarrow> fst (is_authorized_to_edit username users) = Inr False)
       \<and> ((\<forall>d\<in>set ms. \<exists>b. map_of d ''is_organizer'' = Some (JBool b)) \<longrightarrow>
            fst (is_authorized_to_edit username users) =
              Inr (ms \<noteq> [] \<and> (\<forall>d\<in>set ms. map_of d ''is_organizer'' = Some (JBool True))))"
proof -
  have m: "filter (matches users (FieldEq ''username'' (JStr username))) (docs users) = ms"
    by (simp add: ms_def matches_FieldEq)
  have m1: "filter (matches (users\<lparr>calls := cs\<rparr>) (FieldEq ''username'' (JStr username)))
              (docs users) = ms" for cs
    by (simp add: ms_def matches_FieldEq)
  show ?thesis
  proof (cases "ms = []")
    case True
    then show ?thesis
      using m by (simp add: is_authorized_to_edit_def count_documents_def)
  next
    case False
    then show ?thesis
      using m m1 all_organizers_bool[of ms]
      by (simp add: is_authorized_to_edit_def count_documents_def find_FieldEq)
  qed
qed

theorem is_authorized_to_edit_and_of_flags_witness:
  "fst (is_authorized_to_edit ''nobody'' sample_users) = Inr False
 \<and> fst (is_authorized_to_edit ''cmei4444'' sample_users) = Inr True
 \<and> fst (is_authorized_to_edit ''guest'' sample_users) = Inr False"
  using is_authorized_to_edit_and_of_flags [of "''nobody''" sample_users]
        is_authorized_to_edit_and_of_flags [of "''cmei4444''" sample_users]
        is_authorized_to_edit_and_of_flags [of "''guest''" sample_users]
  by (auto simp: sample_users_def)

text \<open>
  Claim C9. The authorization decision and its route only read: the documents, the
  indexes and the text matching of the users collection are what they were, and the calls
  that the log has gained are all reads (\<^verbatim>\<open>count_documents\<close>, \<^verbatim>\<open>find\<close>).
\<close>

theorem authorization_is_read_only:
  "docs (snd (get_authorization form users)) = docs users
 \<and> indexes (snd (get_authorization form users)) = indexes users
 \<and> text_match (snd (get_authorization form users)) = text_match users
 \<and> (\<exists>reads. calls (snd (get_authorization form users)) = calls users @ reads
        \<and> list_all is_read reads)
 \<and> docs (snd (is_authorized_to_edit username users)) = docs users
 \<and> indexes (snd (is_authorized_to_edit username users)) = indexes users
 \<and> text_match (snd (is_authorized_to_edit username users)) = text_match users
 \<and> (\<exists>reads. calls (snd (is_authorized_to_edit username users)) = calls users @ reads
        \<and> list_all is_read reads)"
  by (auto simp: get_authorization_def is_authorized_to_edit_def count_documents_def
      find_FieldEq split: option.splits sum.splits prod.splits)

section \<open>The creation time of an event\<close>

lemma is_digit_digit_char: "n < 10 \<Longrightarrow> is_digit (digit_char n)"
  unfolding is_digit_def digit_char_def by (rule nth_mem) simp

lemma decimal_digits: "list_all is_digit (decimal n)"
proof (induction n rule: decimal.induct)
  case (1 n)
  show ?case
  proof (cases "n < 10")
    case True
    then show ?thesis by (subst decimal.simps) (simp add: is_digit_digit_char)
  next
    case False
    then show ?thesis using 1 by (subst decimal.simps) (simp add: is_digit_digit_char)
  qed
qed

lemma decimal_length: "n < 10 ^ w \<Longrightarrow> 0 < w \<Longrightarrow> length (decimal n) \<le> w"
proof (induction n arbitrary: w rule: decimal.induct)
  case (1 n)
  show ?case
  proof (cases "n < 10")
    case True
    then show ?thesis using 1 by (subst decimal.simps) simp
  next
    case False
    then obtain v where w: "w = Suc v" using 1 by (cases w) auto
    have "0 < v" using False 1(2) w by (cases v) auto
    moreover have "n div 10 < 10 ^ v" using 1(2) w by (simp add: less_mult_imp_div_less mult.commute)
    ultimately have "length (decimal (n div 10)) \<le> v" using 1(1)[OF False] by simp
    then show ?thesis using False w by (subst decimal.simps) simp
  qed
qed

lemma zero_pad_shape:
  assumes "n < 10 ^ w" and "0 < w"
  shows "list_all2 fits (replicate w (CHR ''d'')) (zero_pad w n)"
proof -
  have len: "length (zero_pad w n) = w"
    using decimal_length[OF assms] by (simp add: zero_pad_def)
  have dig: "list_all is_digit (zero_pad w n)"
  proof -
    have "is_digit (CHR ''0'')" by (simp add: is_digit_def)
    then show ?thesis using decimal_digits[of n] by (auto simp: zero_pad_def list_all_iff)
  qed
  show ?thesis
    using len dig by (auto simp: list_all2_conv_all_nth list_all_length fits_def)
qed

lemma isoformat_seconds_shape:
  assumes "valid_datetime t"
  shows "timestamp_shape (isoformat_seconds t)"
proof -
  have p: "''dddd-dd-dd dd:dd:dd'' =
      replicate 4 (CHR ''d'') @ ''-'' @ replicate 2 (CHR ''d'') @ ''-'' @ replicate 2 (CHR ''d'') @ '' '' @
      replicate 2 (CHR ''d'') @ '':'' @ replicate 2 (CHR ''d'') @ '':'' @ replicate 2 (CHR ''d'')"
    by (simp add: numeral_eq_Suc)
  have s: "list_all2 fits [ch] [ch]" if "ch \<noteq> CHR ''d''" for ch
    using that by (simp add: fits_def)
  have y: "list_all2 fits (replicate 4 (CHR ''d'')) (zero_pad 4 (year t))"
    using assms by (intro zero_pad_shape) (simp_all add: valid_datetime_def)
  have two: "list_all2 fits (replicate 2 (CHR ''d'')) (zero_pad 2 n)" if "n < 100" for n
    using that by (intro zero_pad_shape) simp_all
  show ?thesis
    unfolding timestamp_shape_def isoformat_seconds_def p
    using assms
    by (intro list_all2_appendI y two s) (simp_all add: valid_datetime_def)
qed


lemma launch_clock_text: "isoformat_seconds launch_clock = ''2024-01-02 03:04:05''"
  by code_simp

lemma add_event_ignores_other_fields:
  assumes "k \<notin> set required_fields"
  shows "add_event (form(k := v)) utcnow fresh h c = add_event form utcnow fresh h c"
proof -
  have "getitem (form(k := v)) k' = getitem form k'" if "k' \<in> set required_fields" for k'
    using that assms by (auto simp: getitem_def)
  then have g: "getitem (form(k := v)) ''event_name'' = getitem form ''event_name''"
    "getitem (form(k := v)) ''description'' = getitem form ''description''"
    "getitem (form(k := v)) ''author_id'' = getitem form ''author_id''"
    "getitem (form(k := v)) ''event_time'' = getitem form ''event_time''"
    by (simp_all add: required_fields_def)
  show ?thesis
    unfolding add_event_def add_event_try_def g by (rule refl)
qed

text \<open>
  Claim C3. For an add-event request with the four required fields, a configured handle
  and any reading of the clock that is a datetime, the route answers 201 and hands to
  \<^verbatim>\<open>insert_one\<close> the document of the four request values followed by \<open>created_at\<close>,
  whose value is the clock reading printed by \<^verbatim>\<open>isoformat(sep=' ', timespec='seconds')\<close>.
  That text has the shape \<^verbatim>\<open>YYYY-MM-DD HH:MM:SS\<close>. A \<open>created_at\<close> form field
  sent by the client changes nothing: the route gives the same answer and the same store.
\<close>

theorem add_event_created_at_from_clock:
  assumes "form ''event_name'' = Some n" and "form ''description'' = Some d"
    and "form ''author_id'' = Some a" and "form ''event_time'' = Some t"
    and "valid_datetime utcnow"
  shows "add_event form utcnow fresh Connected c =
           (Inr (text_response ''Event added.'' 201),
            insert_one fresh
              [(''name'', JStr n), (''description'', JStr d), (''author'', JStr a),
               (''event_time'', JStr t), (''created_at'', JStr (isoformat_seconds utcnow))] c)
       \<and> timestamp_shape (isoformat_seconds utcnow)
       \<and> add_event (form(''created_at'' \<mapsto> x)) utcnow fresh Connected c =
           add_event form utcnow fresh Connected c"
proof -
  have "add_event_try form utcnow fresh Connected c =
           (Inr (text_response ''Event added.'' 201),
            insert_one fresh
              [(''name'', JStr n), (''description'', JStr d), (''author'', JStr a),
               (''event_time'', JStr t), (''created_at'', JStr (isoformat_seconds utcnow))] c)"
    using assms(1-4)
    by (simp add: add_event_try_def getitem_def getattribute_def build_event_info_def
        Event_def Event_dict_def kwarg_def)
  then have "add_event form utcnow fresh Connected c =
           (Inr (text_response ''Event added.'' 201),
            insert_one fresh
              [(''name'', JStr n), (''description'', JStr d), (''author'', JStr a),
               (''event_time'', JStr t), (''created_at'', JStr (isoformat_seconds utcnow))] c)"
    by (simp add: add_event_def)
  moreover have "timestamp_shape (isoformat_seconds utcnow)"
    using assms(5) by (rule isoformat_seconds_shape)
  moreover have "add_event (form(''created_at'' \<mapsto> x)) utcnow fresh Connected c =
           add_event form utcnow fresh Connected c"
    by (rule add_event_ignores_other_fields) (simp add: required_fields_def)
  ultimately show ?thesis by simp
qed

theorem add_event_created_at_from_clock_witness:
  "add_event launch_form launch_clock launch_id Connected empty_collection =
     (Inr (text_response ''Event added.'' 201),
      insert_one launch_id
        [(''name'', JStr ''Launch''), (''description'', JStr ''kickoff''), (''author'', JStr ''u1''),
         (''event_time'', JStr ''2024-01-01T10:00:00''),
         (''created_at'', JStr ''2024-01-02 03:04:05'')] empty_collection)
 \<and> timestamp_shape ''2024-01-02 03:04:05''
 \<and> add_event (launch_form(''created_at'' \<mapsto> ''1999-12-31 23:59:59'')) launch_clock launch_id
       Connected empty_collection =
     add_event launch_form launch_clock launch_id Connected empty_collection"
proof -
  have "valid_datetime launch_clock"
    by (simp add: valid_datetime_def launch_clock_def)
  then show ?thesis
    using add_event_created_at_from_clock
          [of launch_form "''Launch''" "''kickoff''" "''u1''" "''2024-01-01T10:00:00''"
              launch_clock launch_id empty_collection "''1999-12-31 23:59:59''"]
    by (simp add: launch_form_def launch_clock_text)
qed


section \<open>The response envelope\<close>

lemma Event_dict_idem: "Event (Event_dict (Event d)) = Event d"
  by (simp add: Event_def Event_dict_def kwarg_def)

lemma roundtrip_envelope:
  "json_roundtrip (build_events_dict evs) =
     JDict [(''events'', JList (map declared_part evs)), (''num_events'', JInt (int (length evs)))]"
  by (simp add: build_events_dict_def declared_part_def Event_def Event_dict_def event_fields_def)

lemma roundtrip_envelope_twice:
  "json_roundtrip (build_events_dict (map (\<lambda>ev. Event_dict (Event ev)) evs)) =
     JDict [(''events'', JList (map declared_part evs)), (''num_events'', JInt (int (length evs)))]"
  by (simp add: build_events_dict_def declared_part_def Event_def Event_dict_def event_fields_def kwarg_def comp_def)

lemma matches_TextSearch: "matches c (TextSearch q) = text_match c q"
  by (rule ext) simp

lemma status_db_undefined: "status db_undefined = 500"
  by (simp add: db_undefined_def text_response_def)

lemma get_all_events_200:
  assumes "fst (get_all_events h c) = Inr r" and "status r = 200"
  shows "r = json_response (json_roundtrip (build_events_dict (docs c))) 200"
  using assms
  by (cases h) (auto simp: get_all_events_def get_all_events_try_def getattribute_def
      coll_find_def status_db_undefined)

lemma search_event_200:
  assumes "fst (search_event args h c) = Inr r" and "status r = 200"
  shows "\<exists>name. args ''name'' = Some name \<and>
     r = json_response (json_roundtrip (build_events_dict (filter (text_match c name) (docs c)))) 200"
  using assms
  by (cases h; cases "args ''name''")
    (auto simp: search_event_def search_event_try_def getattribute_def getitem_def
      text_search_event_name_def coll_find_def create_index_def status_db_undefined
      matches_TextSearch
      text_response_def split: if_splits)

lemma get_one_event_200:
  assumes "fst (get_one_event event_id h c) = Inr r" and "status r = 200"
  shows "r = json_response (json_roundtrip (build_events_dict
           (map (\<lambda>ev. Event_dict (Event ev))
              (filter (\<lambda>d. map_of d ''_id'' = Some (JOid (map hex_lower event_id))) (docs c))))) 200"
  using assms
  by (cases h)
    (auto simp: get_one_event_def get_one_event_try_def getattribute_def ObjectId_def
      coll_find_def status_db_undefined matches_FieldEq split: if_splits)

text \<open>
  Claim C4. Whenever list-all, search or get-one-by-id answers 200, the body is the
  envelope \<^verbatim>\<open>{"events": L, "num_events": N}\<close>, and \<open>N\<close> is the length of \<open>L\<close>.
\<close>

theorem envelope_count:
  assumes "fst (get_all_events h c) = Inr r \<or> fst (search_event args h c) = Inr r
             \<or> fst (get_one_event event_id h c) = Inr r"
    and "status r = 200"
  shows "\<exists>l. body r = Json (JDict [(''events'', JList l), (''num_events'', JInt (int (length l)))])"
proof -
  have "\<exists>evs. r = json_response (json_roundtrip (build_events_dict evs)) 200"
    using assms get_all_events_200 search_event_200 get_one_event_200 by blast
  then obtain evs where "r = json_response (json_roundtrip (build_events_dict evs)) 200" ..
  then have "body r = Json (JDict [(''events'', JList (map declared_part evs)),
                                   (''num_events'', JInt (int (length (map declared_part evs))))])"
    by (simp add: roundtrip_envelope json_response_def)
  then show ?thesis by blast
qed

section \<open>Fields that the data model does not declare\<close>

lemma declared_part_fields: "\<exists>kvs. declared_part d = JDict kvs \<and> map fst kvs = event_fields"
  by (simp add: declared_part_def comp_def)

text \<open>
  Claim C8. Whenever list-all, search or get-one-by-id answers 200, the events of the
  envelope are the declared parts of documents of the store: each one is the Event
  entity's field list (name, description, author, event_time, created_at), in that order
  and with nothing else, so a stored field outside the data model is not on the wire.
\<close>

theorem wire_events_keep_declared_fields_only:
  assumes "fst (get_all_events h c) = Inr r \<or> fst (search_event args h c) = Inr r
             \<or> fst (get_one_event event_id h c) = Inr r"
    and "status r = 200"
  shows "\<exists>found. set found \<subseteq> set (docs c)
           \<and> body r = Json (JDict [(''events'', JList (map declared_part found)),
                                   (''num_events'', JInt (int (length found)))])
           \<and> (\<forall>d\<in>set found. \<exists>kvs. declared_part d = JDict kvs \<and> map fst kvs = event_fields)"
proof -
  consider (a) "fst (get_all_events h c) = Inr r" | (s) "fst (search_event args h c) = Inr r"
    | (g) "fst (get_one_event event_id h c) = Inr r"
    using assms(1) by blast
  then have "\<exists>found. set found \<subseteq> set (docs c)
           \<and> body r = Json (JDict [(''events'', JList (map declared_part found)),
                                   (''num_events'', JInt (int (length found)))])"
  proof cases
    case a
    then have "r = json_response (json_roundtrip (build_events_dict (docs c))) 200"
      using assms(2) by (rule get_all_events_200)
    then have "set (docs c) \<subseteq> set (docs c)
           \<and> body r = Json (JDict [(''events'', JList (map declared_part (docs c))),
                                   (''num_events'', JInt (int (length (docs c))))])"
      by (simp add: roundtrip_envelope json_response_def)
    then show ?thesis by blast
  next
    case s
    then obtain name where
      "r = json_response (json_roundtrip (build_events_dict (filter (text_match c name) (docs c)))) 200"
      using assms(2) search_event_200 by blast
    then have "set (filter (text_match c name) (docs c)) \<subseteq> set (docs c)
           \<and> body r = Json (JDict [(''events'', JList (map declared_part (filter (text_match c name) (docs c)))),
                                   (''num_events'', JInt (int (length (filter (text_match c name) (docs c)))))])"
      by (simp add: roundtrip_envelope json_response_def)
    then show ?thesis by blast
  next
    case g
    let ?f = "filter (\<lambda>d. map_of d ''_id'' = Some (JOid (map hex_lower event_id))) (docs c)"
    have "r = json_response (json_roundtrip (build_events_dict
           (map (\<lambda>ev. Event_dict (Event ev)) ?f))) 200"
      using g assms(2) by (rule get_one_event_200)
    then have "set ?f \<subseteq> set (docs c)
           \<and> body r = Json (JDict [(''events'', JList (map declared_part ?f)),
                                   (''num_events'', JInt (int (length ?f)))])"
      by (simp add: roundtrip_envelope_twice json_response_def)
    then show ?thesis by blast
  qed
  then show ?thesis using declared_part_fields by blast
qed

text \<open>The three routes on the sample collection.\<close>

lemma get_all_sample: "fst (get_all_events Connected sample_events) = Inr sample_answer"
  by (simp add: get_all_events_def get_all_events_try_def getattribute_def coll_find_def
      sample_events_def sample_answer_def build_events_dict_def Event_def Event_dict_def
      kwarg_def json_response_def)

lemma get_one_sample: "fst (get_one_event launch_id Connected sample_events) = Inr sample_answer"
  by (simp add: get_one_event_def get_one_event_try_def getattribute_def coll_find_def
      ObjectId_def is_hex_def hex_lower_def launch_id_def
      sample_events_def sample_answer_def build_events_dict_def Event_def Event_dict_def
      kwarg_def json_response_def)

lemma search_sample:
  "fst (search_event (map_of [(''name'', ''Launch'')]) Connected sample_events) = Inr sample_answer"
  by (simp add: search_event_def search_event_try_def getitem_def getattribute_def coll_find_def
      text_search_event_name_def create_index_def has_text_index_def name_is_def
      sample_events_def sample_answer_def build_events_dict_def Event_def Event_dict_def
      kwarg_def json_response_def)

theorem envelope_count_witness:
  "fst (get_all_events Connected sample_events) = Inr sample_answer
 \<and> status sample_answer = 200
 \<and> (\<exists>l. body sample_answer =
           Json (JDict [(''events'', JList l), (''num_events'', JInt (int (length l)))]))"
proof -
  have s: "status sample_answer = 200" by (simp add: sample_answer_def)
  show ?thesis
    using get_all_sample s
      envelope_count [of Connected sample_events sample_answer Map.empty launch_id]
    by simp
qed

theorem wire_events_keep_declared_fields_only_witness:
  "fst (get_one_event launch_id Connected sample_events) = Inr sample_answer
 \<and> status sample_answer = 200
 \<and> (\<exists>found. set found \<subseteq> set (docs sample_events)
        \<and> body sample_answer =
            Json (JDict [(''events'', JList (map declared_part found)),
                         (''num_events'', JInt (int (length found)))])
        \<and> list_all (\<lambda>d. \<exists>kvs. declared_part d = JDict kvs \<and> map fst kvs = event_fields) found)"
proof -
  have s: "status sample_answer = 200" by (simp add: sample_answer_def)
  show ?thesis
    using get_one_sample s
      wire_events_keep_declared_fields_only [of Connected sample_events sample_answer Map.empty launch_id]
    by (simp add: list_all_iff)
qed

section \<open>The text index of the search\<close>

lemma create_index_mem: "keys \<in> set (indexes (create_index keys c))"
  by (simp add: create_index_def)

lemma has_text_indexI:
  assumes "keys \<in> set (indexes c)" and "list_ex (\<lambda>kt. snd kt = ''text'') keys"
  shows "has_text_index c"
  unfolding has_text_index_def list_ex_iff using assms by (auto simp: list_ex_iff)

lemma has_text_index_created: "has_text_index (create_index [(''name'', ''text'')] c)"
  by (rule has_text_indexI [OF create_index_mem]) simp

lemma search_event_Connected:
  assumes "args ''name'' = Some name"
  shows "search_event args Connected c =
          (Inr (json_response
                  (json_roundtrip (build_events_dict (filter (text_match c name) (docs c)))) 200),
           (create_index [(''name'', ''text'')] c)
              \<lparr>calls := calls c @ [CreateIndex [(''name'', ''text'')], Find (TextSearch name)]\<rparr>)"
proof -
  have "coll_find (TextSearch name) (create_index [(''name'', ''text'')] c) =
          (Inr (filter (text_match c name) (docs c)),
           (create_index [(''name'', ''text'')] c)
              \<lparr>calls := calls c @ [CreateIndex [(''name'', ''text'')], Find (TextSearch name)]\<rparr>)"
    using has_text_index_created[of c]
    by (simp add: coll_find_def matches_TextSearch) (simp add: create_index_def)
  then show ?thesis
    using assms
    by (simp add: search_event_def search_event_try_def getitem_def getattribute_def
        text_search_event_name_def)
qed

lemma search_event_Thrower:
  assumes "args ''name'' = Some name"
  shows "search_event args Thrower c = (Inr db_undefined, c)"
  using assms
  by (simp add: search_event_def search_event_try_def getitem_def getattribute_def)

lemma create_index_twice:
  "indexes (create_index keys (create_index keys c)) = indexes (create_index keys c)"
  by (simp add: create_index_def)

text \<open>
  Claim C7. For a search request with the \<open>name\<close> parameter, the calls that the route
  adds to the log of the store are, with a configured handle, the creation of the text
  index on \<open>name\<close> and then the text search, in this order (with the unconfigured
  handle neither is made). The search then finds the index and is answered 200. Creating
  the index again changes neither the indexes nor the documents: a second search leaves
  the indexes as the first one left them.
\<close>

theorem search_event_index_before_search:
  assumes "args ''name'' = Some name"
  shows "calls (snd (search_event args h c)) =
           calls c @ (case h of Thrower \<Rightarrow> []
                      | Connected \<Rightarrow> [CreateIndex [(''name'', ''text'')], Find (TextSearch name)])
       \<and> fst (search_event args Connected c) =
           Inr (json_response
                  (json_roundtrip (build_events_dict (filter (text_match c name) (docs c)))) 200)
       \<and> indexes (create_index keys (create_index keys c)) = indexes (create_index keys c)
       \<and> docs (create_index keys c) = docs c
       \<and> indexes (snd (search_event args Connected (snd (search_event args Connected c)))) =
           indexes (snd (search_event args Connected c))"
proof -
  have 1: "calls (snd (search_event args h c)) =
           calls c @ (case h of Thrower \<Rightarrow> []
                      | Connected \<Rightarrow> [CreateIndex [(''name'', ''text'')], Find (TextSearch name)])"
    using assms by (cases h) (simp_all add: search_event_Connected search_event_Thrower)
  have 2: "docs (create_index keys c) = docs c"
    by (simp add: create_index_def)
  have 3: "indexes (snd (search_event args Connected (snd (search_event args Connected c)))) =
           indexes (snd (search_event args Connected c))"
    using assms by (simp add: search_event_Connected create_index_def)
  show ?thesis
    using 1 2 3 assms by (simp add: search_event_Connected create_index_twice)
qed

theorem search_event_index_before_search_witness:
  "calls (snd (search_event (map_of [(''name'', ''Launch'')]) Connected sample_events)) =
     [CreateIndex [(''name'', ''text'')], Find (TextSearch ''Launch'')]
 \<and> fst (search_event (map_of [(''name'', ''Launch'')]) Connected sample_events) = Inr sample_answer
 \<and> indexes (snd (search_event (map_of [(''name'', ''Launch'')]) Connected sample_events)) =
     [[(''name'', ''text'')]]"
  using search_event_index_before_search
          [of "map_of [(''name'', ''Launch'')]" "''Launch''" Connected sample_events]
        search_sample
  by (simp add: sample_events_def create_index_def search_event_def search_event_try_def
       getitem_def getattribute_def text_search_event_name_def coll_find_def has_text_index_def)

section \<open>The add-or-update-user stub\<close>




end
